theory Spec2Isabelle
  imports Main "HOL-Library.Word" "HOL-Library.AList"
begin

section \<open>Python values\<close>

text \<open>
  A Python \<^verbatim>\<open>str\<close> is a sequence of Unicode code points, so it is modelled as a list of
  natural numbers (every code point up to \<open>0x10FFFF\<close>, the surrogates \<open>0xD800..0xDFFF\<close>
  included: Python allows them inside a \<^verbatim>\<open>str\<close>). \<^verbatim>\<open>bytes\<close> is a list of 8-bit words.
  \<open>S\<close> turns an ASCII literal of the source into its code points.
\<close>

type_synonym pystr = "nat list"

type_synonym bytes = "8 word list"

definition S :: "string \<Rightarrow> pystr" where
  "S cs = map of_char cs"

text \<open>The backslash and the newline, which the literals of the source spell with escapes.\<close>

definition bslash :: pystr where
  "bslash = [92]"

definition newline :: pystr where
  "newline = [10]"

text \<open>The pictographs that start the tool's messages.\<close>

definition mag :: pystr where
  "mag = [0x1F50D]"

definition ok_mark :: pystr where
  "ok_mark = [0x2705]"

definition cross :: pystr where
  "cross = [0x274C]"

definition warn_mark :: pystr where
  "warn_mark = [0x26A0, 0xFE0F]"

definition clipboard :: pystr where
  "clipboard = [0x1F4CB]"

definition bulb :: pystr where
  "bulb = [0x1F4A1]"

definition lock_mark :: pystr where
  "lock_mark = [0x1F510]"

definition party :: pystr where
  "party = [0x1F389]"

text \<open>\<^verbatim>\<open>str(n)\<close> of an integer: its decimal digits.\<close>

function str_nat :: "nat \<Rightarrow> pystr" where
  "str_nat n = (if n < 10 then [48 + n] else str_nat (n div 10) @ [48 + n mod 10])"
  by pat_completeness auto
termination
  by (relation "measure id") auto

declare str_nat.simps [simp del]

definition str_int :: "int \<Rightarrow> pystr" where
  "str_int i = (if i < 0 then 45 # str_nat (nat (- i)) else str_nat (nat i))"




definition is_space :: "nat \<Rightarrow> bool" where
  "is_space c \<longleftrightarrow>
     (0x09 \<le> c \<and> c \<le> 0x0D) \<or> (0x1C \<le> c \<and> c \<le> 0x20) \<or> c = 0x85 \<or> c = 0xA0 \<or>
     c = 0x1680 \<or> (0x2000 \<le> c \<and> c \<le> 0x200A) \<or> c = 0x2028 \<or> c = 0x2029 \<or>
     c = 0x202F \<or> c = 0x205F \<or> c = 0x3000"

definition strip :: "pystr \<Rightarrow> pystr" where
  "strip s = rev (dropWhile is_space (rev (dropWhile is_space s)))"

section \<open>The outside world\<close>

text \<open>
  Every exception the model raises is an instance of Python's \<^verbatim>\<open>Exception\<close>, with its class
  name and its \<^verbatim>\<open>str(e)\<close>. An operator interrupt is not an \<^verbatim>\<open>Exception\<close> and is not
  modelled.
\<close>

datatype exn = Exn (exn_class: string) (exn_str: pystr)

datatype completed = Completed (returncode: int) (stdout: pystr) (stderr: pystr)

datatype node = Dir | File pystr

type_synonym filesys = "pystr \<rightharpoonup> node"

text \<open>What the tool does to the world, in order: each line it prints, each prompt it reads
  an answer to, each TCP connection it attempts and each external command it runs.\<close>

datatype event =
    Print pystr
  | Prompt pystr
  | PromptHidden pystr
  | Connect pystr int
  | Run "pystr list"

text \<open>
  The platform, as the tool sees it through the standard library:
  \<^item> \<open>connect_ex host port\<close>: what the four socket calls of
    \<^verbatim>\<open>test_network_connectivity\<close> (create, set the timeout, \<^verbatim>\<open>connect_ex\<close>, close) end in:
    the code \<^verbatim>\<open>connect_ex\<close> returns, or the exception one of them raises;
  \<^item> \<open>subprocess_run cmd timeout fs\<close>: \<^verbatim>\<open>subprocess.run(cmd, capture_output=True,
    text=True, timeout=...)\<close>: the completed process or the exception raised, and the file
    system the command leaves;
  \<^item> \<open>makedirs path fs\<close>: \<^verbatim>\<open>os.makedirs(path, exist_ok=True)\<close>;
  \<^item> \<open>mkstemp suffix fs\<close>: the fresh name \<^verbatim>\<open>tempfile.NamedTemporaryFile\<close> picks;
  \<^item> \<open>write_error path text\<close>: the error, if any, that writing and closing the
    temporary file ends in for a reason of the platform's (a full disk);
  \<^item> \<open>getuid\<close>, \<^verbatim>\<open>getgid\<close>: the process's user and group;
  \<^item> \<open>now\<close>, \<open>urandom16\<close>: the clock and the random bytes the cipher draws.
\<close>

record env =
  connect_ex :: "pystr \<Rightarrow> int \<Rightarrow> exn + int"
  subprocess_run :: "pystr list \<Rightarrow> nat option \<Rightarrow> filesys \<Rightarrow> (exn + completed) \<times> filesys"
  makedirs :: "pystr \<Rightarrow> filesys \<Rightarrow> exn + filesys"
  mkstemp :: "pystr \<Rightarrow> filesys \<Rightarrow> exn + pystr"
  write_error :: "pystr \<Rightarrow> pystr \<Rightarrow> exn option"
  getuid :: nat
  getgid :: nat
  now :: nat
  urandom16 :: bytes

text \<open>The values \<^verbatim>\<open>self.results\<close> holds.\<close>

datatype result_entry =
    ServiceStatus "(pystr \<times> pystr) list"
  | SmbutilAvailable bool
  | AvailableTools "pystr list"

text \<open>
  The state the tool runs in: the fields of \<^verbatim>\<open>SMBDiagnosticTool\<close> (\<open>os_type\<close>,
  \<open>results\<close>), the file system, the operator's pending answers to \<^verbatim>\<open>input()\<close> and
  \<^verbatim>\<open>getpass()\<close>, and the events so far.
\<close>

record state =
  os_type :: pystr
  results :: "pystr \<rightharpoonup> result_entry"
  fs :: filesys
  answers :: "pystr list"
  trace :: "event list"

definition emit :: "event \<Rightarrow> state \<Rightarrow> state" where
  "emit e s = s\<lparr>trace := trace s @ [e]\<rparr>"

definition print :: "pystr \<Rightarrow> state \<Rightarrow> state" where
  "print line s = emit (Print line) s"

text \<open>\<^verbatim>\<open>subprocess.run\<close> in the current state: the command is recorded, and the file system
  is the one the command leaves.\<close>

definition run :: "env \<Rightarrow> pystr list \<Rightarrow> nat option \<Rightarrow> state \<Rightarrow> (exn + completed) \<times> state" where
  "run E cmd tmo s =
     (let (r, fs') = subprocess_run E cmd tmo (fs s)
      in (r, (emit (Run cmd) s)\<lparr>fs := fs'\<rparr>))"

section \<open>Text and binary codecs of the standard library\<close>

text \<open>
  The codecs follow CPython 3.11, the texts of their exceptions included. Hexadecimal
  digits are lower-case, as \<^verbatim>\<open>%x\<close> prints them.
\<close>

definition apos :: pystr where
  "apos = [39]"

definition hex_digit :: "nat \<Rightarrow> nat" where
  "hex_digit d = (if d < 10 then 48 + d else 87 + d)"

definition u_escape :: "nat \<Rightarrow> pystr" where
  "u_escape n = bslash @ S ''u'' @ [hex_digit (n div 4096 mod 16), hex_digit (n div 256 mod 16),
                                    hex_digit (n div 16 mod 16), hex_digit (n mod 16)]"

definition hex_byte :: "nat \<Rightarrow> pystr" where
  "hex_byte b = [hex_digit (b div 16 mod 16), hex_digit (b mod 16)]"

text \<open>
  \<^verbatim>\<open>str.encode()\<close>: strict UTF-8. A surrogate code point has no encoding and raises
  \<^verbatim>\<open>UnicodeEncodeError\<close>, whose text names the first surrogate and its position, or the
  range of positions when several surrogates follow one another. A number above
  \<open>0x10FFFF\<close> is no code point of a Python string; the model refuses it as well.
\<close>

definition is_surrogate :: "nat \<Rightarrow> bool" where
  "is_surrogate c \<longleftrightarrow> 0xD800 \<le> c \<and> c \<le> 0xDFFF"

definition utf8_char :: "nat \<Rightarrow> bytes option" where
  "utf8_char c =
     (if c < 0x80 then Some [of_nat c]
      else if c < 0x800 then Some [of_nat (0xC0 + c div 64), of_nat (0x80 + c mod 64)]
      else if is_surrogate c then None
      else if c < 0x10000
        then Some [of_nat (0xE0 + c div 4096), of_nat (0x80 + c div 64 mod 64),
                   of_nat (0x80 + c mod 64)]
      else if c < 0x110000
        then Some [of_nat (0xF0 + c div 262144), of_nat (0x80 + c div 4096 mod 64),
                   of_nat (0x80 + c div 64 mod 64), of_nat (0x80 + c mod 64)]
      else None)"

fun utf8_bytes :: "pystr \<Rightarrow> bytes option" where
  "utf8_bytes [] = Some []"
| "utf8_bytes (c # cs) =
     (case utf8_char c of
        None \<Rightarrow> None
      | Some bs \<Rightarrow> (case utf8_bytes cs of None \<Rightarrow> None | Some rest \<Rightarrow> Some (bs @ rest)))"

definition encode_error_text :: "pystr \<Rightarrow> pystr" where
  "encode_error_text s =
     (let start = length (takeWhile (\<lambda>c. utf8_char c \<noteq> None) s);
          bad = takeWhile (\<lambda>c. utf8_char c = None) (drop start s)
      in apos @ S ''utf-8'' @ apos @ S '' codec can'' @ apos @ S ''t encode ''
         @ (if length bad = 1
            then S ''character '' @ apos @ u_escape (hd bad) @ apos @ S '' in position ''
                 @ str_nat start
            else S ''characters in position '' @ str_nat start @ S ''-''
                 @ str_nat (start + length bad - 1))
         @ S '': surrogates not allowed'')"

definition utf8_encode :: "pystr \<Rightarrow> exn + bytes" where
  "utf8_encode s =
     (case utf8_bytes s of
        Some bs \<Rightarrow> Inr bs
      | None \<Rightarrow> Inl (Exn ''UnicodeEncodeError'' (encode_error_text s)))"

text \<open>
  \<^verbatim>\<open>bytes.decode()\<close>: strict UTF-8, which refuses overlong forms, surrogates, values above
  \<open>0x10FFFF\<close> and truncated sequences with \<^verbatim>\<open>UnicodeDecodeError\<close>. \<open>utf8_seq\<close> reads one
  sequence: its code point and length, or the number of bytes the error covers, or the
  end of the data inside a sequence that was well-formed so far.
\<close>

definition cont :: "nat \<Rightarrow> bool" where
  "cont b \<longleftrightarrow> 0x80 \<le> b \<and> b \<le> 0xBF"

datatype seq_result = Scalar nat nat | Invalid nat pystr | Truncated

definition bad_start :: pystr where
  "bad_start = S ''invalid start byte''"

definition bad_cont :: pystr where
  "bad_cont = S ''invalid continuation byte''"

fun utf8_seq :: "nat \<Rightarrow> nat list \<Rightarrow> seq_result" where
  "utf8_seq b0 r =
     (if b0 < 0x80 then Scalar b0 1
      else if b0 < 0xC2 then Invalid 1 bad_start
      else if b0 < 0xE0 then
        (case r of
           [] \<Rightarrow> Truncated
         | b1 # r1 \<Rightarrow>
             if cont b1 then Scalar ((b0 - 0xC0) * 64 + (b1 - 0x80)) 2 else Invalid 1 bad_cont)
      else if b0 < 0xF0 then
        (case r of
           [] \<Rightarrow> Truncated
         | b1 # r1 \<Rightarrow>
             if \<not> cont b1 \<or> (b0 = 0xE0 \<and> b1 < 0xA0) \<or> (b0 = 0xED \<and> 0xA0 \<le> b1)
             then Invalid 1 bad_cont
             else (case r1 of
                     [] \<Rightarrow> Truncated
                   | b2 # r2 \<Rightarrow>
                       if cont b2
                       then Scalar ((b0 - 0xE0) * 4096 + (b1 - 0x80) * 64 + (b2 - 0x80)) 3
                       else Invalid 2 bad_cont))
      else if b0 < 0xF5 then
        (case r of
           [] \<Rightarrow> Truncated
         | b1 # r1 \<Rightarrow>
             if \<not> cont b1 \<or> (b0 = 0xF0 \<and> b1 < 0x90) \<or> (b0 = 0xF4 \<and> 0x90 \<le> b1)
             then Invalid 1 bad_cont
             else (case r1 of
                     [] \<Rightarrow> Truncated
                   | b2 # r2 \<Rightarrow>
                       if \<not> cont b2 then Invalid 2 bad_cont
                       else (case r2 of
                               [] \<Rightarrow> Truncated
                             | b3 # r3 \<Rightarrow>
                                 if cont b3
                                 then Scalar ((b0 - 0xF0) * 262144 + (b1 - 0x80) * 4096
                                              + (b2 - 0x80) * 64 + (b3 - 0x80)) 4
                                 else Invalid 3 bad_cont)))
      else Invalid 1 bad_start)"

declare utf8_seq.simps [simp del]

definition decode_error_text :: "nat \<Rightarrow> nat \<Rightarrow> nat \<Rightarrow> pystr \<Rightarrow> pystr" where
  "decode_error_text start stop b reason =
     apos @ S ''utf-8'' @ apos @ S '' codec can'' @ apos @ S ''t decode ''
     @ (if stop = start + 1
        then S ''byte 0x'' @ hex_byte b @ S '' in position '' @ str_nat start
        else S ''bytes in position '' @ str_nat start @ S ''-'' @ str_nat (stop - 1))
     @ S '': '' @ reason"

function utf8_decode_at :: "nat \<Rightarrow> nat list \<Rightarrow> exn + pystr" where
  "utf8_decode_at pos [] = Inr []"
| "utf8_decode_at pos (b0 # r) =
     (case utf8_seq b0 r of
        Scalar c n \<Rightarrow>
          (case utf8_decode_at (pos + n) (drop (n - 1) r) of
             Inl e \<Rightarrow> Inl e
           | Inr cs \<Rightarrow> Inr (c # cs))
      | Invalid k reason \<Rightarrow>
          Inl (Exn ''UnicodeDecodeError'' (decode_error_text pos (pos + k) b0 reason))
      | Truncated \<Rightarrow>
          Inl (Exn ''UnicodeDecodeError''
                 (decode_error_text pos (pos + 1 + length r) b0 (S ''unexpected end of data''))))"
  by pat_completeness auto
termination
  by (relation "measure (\<lambda>(pos, bs). length bs)") auto

definition utf8_decode :: "bytes \<Rightarrow> exn + pystr" where
  "utf8_decode bs = utf8_decode_at 0 (map unat bs)"

text \<open>ASCII text is encoded and decoded byte for byte.\<close>

definition ascii :: "pystr \<Rightarrow> bool" where
  "ascii s = list_all (\<lambda>c. c < 0x80) s"

definition ascii_bytes :: "bytes \<Rightarrow> bool" where
  "ascii_bytes bs = list_all (\<lambda>b. unat b < 0x80) bs"

lemma ascii_append [simp]: "ascii (xs @ ys) \<longleftrightarrow> ascii xs \<and> ascii ys"
  by (simp add: ascii_def)

lemma utf8_bytes_ascii: "ascii s \<Longrightarrow> utf8_bytes s = Some (map of_nat s)"
  by (induction s) (simp_all add: ascii_def utf8_char_def)

lemma utf8_encode_ascii: "ascii s \<Longrightarrow> utf8_encode s = Inr (map of_nat s)"
  by (simp add: utf8_encode_def utf8_bytes_ascii)

lemma utf8_decode_at_ascii: "list_all (\<lambda>c. c < 0x80) s \<Longrightarrow> utf8_decode_at pos s = Inr s"
  by (induction s arbitrary: pos) (simp_all add: utf8_seq.simps)

lemma unat_of_nat_ascii: "c < 0x80 \<Longrightarrow> unat (of_nat c :: 8 word) = c"
  by (simp add: unat_of_nat)

lemma utf8_roundtrip_ascii: "ascii s \<Longrightarrow> utf8_decode (map of_nat s) = Inr s"
proof -
  assume a: "ascii s"
  then have "map unat (map of_nat s :: bytes) = s"
    by (induction s) (simp_all add: ascii_def unat_of_nat_ascii)
  then show ?thesis using a by (simp add: utf8_decode_def utf8_decode_at_ascii ascii_def)
qed

lemma utf8_decode_ascii_bytes: "ascii_bytes bs \<Longrightarrow> utf8_decode bs = Inr (map unat bs)"
  by (simp add: utf8_decode_def ascii_bytes_def utf8_decode_at_ascii list_all_iff)

lemma utf8_encode_ascii_bytes: "ascii_bytes bs \<Longrightarrow> utf8_encode (map unat bs) = Inr bs"
proof -
  assume a: "ascii_bytes bs"
  then have "ascii (map unat bs)" by (simp add: ascii_def ascii_bytes_def list_all_iff)
  then have "utf8_encode (map unat bs) = Inr (map of_nat (map unat bs))" by (rule utf8_encode_ascii)
  then show ?thesis by (simp add: comp_def)
qed

text \<open>
  A string of Unicode scalar values: no surrogate, nothing above \<open>0x10FFFF\<close>. These are
  exactly the strings \<^verbatim>\<open>str.encode()\<close> accepts.
\<close>

definition well_formed :: "pystr \<Rightarrow> bool" where
  "well_formed s = list_all (\<lambda>c. c < 0x110000 \<and> \<not> is_surrogate c) s"

lemma utf8_char_Some_iff: "utf8_char c \<noteq> None \<longleftrightarrow> c < 0x110000 \<and> \<not> is_surrogate c"
  by (auto simp: utf8_char_def is_surrogate_def)

lemma utf8_bytes_well_formed: "utf8_bytes s \<noteq> None \<longleftrightarrow> well_formed s"
proof (induction s)
  case Nil
  show ?case by (simp add: well_formed_def)
next
  case (Cons c cs)
  have "utf8_bytes (c # cs) \<noteq> None \<longleftrightarrow> utf8_char c \<noteq> None \<and> utf8_bytes cs \<noteq> None"
    by (simp split: option.splits)
  also have "\<dots> \<longleftrightarrow> (c < 0x110000 \<and> \<not> is_surrogate c) \<and> well_formed cs"
    by (simp only: utf8_char_Some_iff Cons.IH)
  also have "\<dots> \<longleftrightarrow> well_formed (c # cs)"
    by (simp add: well_formed_def)
  finally show ?case .
qed

lemma utf8_encode_well_formed: "well_formed s \<Longrightarrow> \<exists>bs. utf8_encode s = Inr bs"
  using utf8_bytes_well_formed [of s] by (auto simp: utf8_encode_def split: option.splits)

lemma utf8_encode_ill_formed:
  "\<not> well_formed s \<Longrightarrow> utf8_encode s = Inl (Exn ''UnicodeEncodeError'' (encode_error_text s))"
  using utf8_bytes_well_formed [of s] by (auto simp: utf8_encode_def split: option.splits)

lemma well_formed_append [simp]: "well_formed (xs @ ys) \<longleftrightarrow> well_formed xs \<and> well_formed ys"
  by (simp add: well_formed_def)

lemma ascii_well_formed: "ascii s \<Longrightarrow> well_formed s"
  by (induction s) (simp_all add: ascii_def well_formed_def is_surrogate_def)

lemma well_formed_S [simp]: "well_formed (S cs)"
proof -
  have small: "(of_char c :: nat) < 256" for c :: char
    by (cases c) simp
  have "(of_char c :: nat) < 0x110000 \<and> \<not> is_surrogate (of_char c)" for c :: char
    unfolding is_surrogate_def using small [of c] by linarith
  then show ?thesis by (simp add: well_formed_def S_def list_all_iff)
qed

lemma ascii_str_nat: "ascii (str_nat n)"
proof (induction n rule: str_nat.induct)
  case (1 n)
  have digit: "48 + n mod 10 < 128" by linarith
  show ?case
  proof (cases "n < 10")
    case True
    then show ?thesis by (subst str_nat.simps) (simp add: ascii_def)
  next
    case False
    then show ?thesis using "1" digit by (subst str_nat.simps) (simp add: ascii_def)
  qed
qed

lemma hex_digit_ascii: "d < 16 \<Longrightarrow> hex_digit d < 128"
  by (simp add: hex_digit_def)

lemma ascii_u_escape: "ascii (u_escape n)"
  by (simp add: u_escape_def bslash_def S_def ascii_def hex_digit_ascii)

section \<open>URL-safe base64\<close>

text \<open>
  \<^verbatim>\<open>base64.urlsafe_b64encode\<close>: three bytes become four characters of the alphabet
  \<^verbatim>\<open>A-Z a-z 0-9 - _\<close>, the last group padded with \<^verbatim>\<open>=\<close>. The shifts and masks of the C code
  are written as division and remainder on the byte values.
\<close>

definition b64_char :: "nat \<Rightarrow> 8 word" where
  "b64_char n =
     of_nat (if n < 26 then 65 + n else if n < 52 then 71 + n else if n < 62 then n - 4
             else if n = 62 then 45 else 95)"

text \<open>
  \<^verbatim>\<open>base64.urlsafe_b64decode\<close> maps \<^verbatim>\<open>-\<close> and \<^verbatim>\<open>_\<close> to \<^verbatim>\<open>+\<close> and \<^verbatim>\<open>/\<close> and calls
  \<^verbatim>\<open>binascii.a2b_base64\<close> in its lenient mode, so both alphabets are read
  (\<open>b64_digit\<close>). The loop of \<^verbatim>\<open>a2b_base64\<close> (CPython 3.11) skips every byte outside the
  alphabet, stops at the padding that completes a group (what follows is not read), and
  raises \<^verbatim>\<open>binascii.Error\<close> when the input ends inside a group.
\<close>

definition b64_digit :: "nat \<Rightarrow> nat option" where
  "b64_digit ch =
     (if 65 \<le> ch \<and> ch \<le> 90 then Some (ch - 65)
      else if 97 \<le> ch \<and> ch \<le> 122 then Some (ch - 71)
      else if 48 \<le> ch \<and> ch \<le> 57 then Some (ch + 4)
      else if ch = 43 \<or> ch = 45 then Some 62
      else if ch = 47 \<or> ch = 95 then Some 63
      else None)"

definition b64_pad :: "8 word" where
  "b64_pad = 61"

fun urlsafe_b64encode :: "bytes \<Rightarrow> bytes" where
  "urlsafe_b64encode [] = []"
| "urlsafe_b64encode [a] =
     [b64_char (unat a div 4), b64_char (unat a mod 4 * 16), b64_pad, b64_pad]"
| "urlsafe_b64encode [a, b] =
     [b64_char (unat a div 4), b64_char (unat a mod 4 * 16 + unat b div 16),
      b64_char (unat b mod 16 * 4), b64_pad]"
| "urlsafe_b64encode (a # b # c # rest) =
     [b64_char (unat a div 4), b64_char (unat a mod 4 * 16 + unat b div 16),
      b64_char (unat b mod 16 * 4 + unat c div 64), b64_char (unat c mod 64)]
     @ urlsafe_b64encode rest"

text \<open>
  The two errors of the decoder: the input ended after the first character of a group (the
  text counts the data characters from the bytes written so far), or later inside a group.
\<close>

definition b64_error :: "nat \<Rightarrow> bytes \<Rightarrow> exn" where
  "b64_error quad_pos out =
     Exn ''binascii.Error''
       (if quad_pos = 1
        then S ''Invalid base64-encoded string: number of data characters (''
             @ str_nat (length out div 3 * 4 + 1) @ S '') cannot be 1 more than a multiple of 4''
        else S ''Incorrect padding'')"

fun a2b_base64 :: "bytes \<Rightarrow> nat \<Rightarrow> nat \<Rightarrow> nat \<Rightarrow> bytes \<Rightarrow> exn + bytes" where
  "a2b_base64 [] quad_pos leftchar pads out =
     (if quad_pos \<noteq> 0 then Inl (b64_error quad_pos out) else Inr out)"
| "a2b_base64 (ch # rest) quad_pos leftchar pads out =
     (if ch = b64_pad then
        (if quad_pos \<ge> 2 \<and> quad_pos + (pads + 1) \<ge> 4 then Inr out
         else a2b_base64 rest quad_pos leftchar (if quad_pos \<ge> 2 then pads + 1 else pads) out)
      else
        (case b64_digit (unat ch) of
           None \<Rightarrow> a2b_base64 rest quad_pos leftchar pads out
         | Some this_ch \<Rightarrow>
             if quad_pos = 0 then a2b_base64 rest 1 this_ch 0 out
             else if quad_pos = 1 then
               a2b_base64 rest 2 (this_ch mod 16) 0
                 (out @ [of_nat ((leftchar * 4 + this_ch div 16) mod 256)])
             else if quad_pos = 2 then
               a2b_base64 rest 3 (this_ch mod 4) 0
                 (out @ [of_nat ((leftchar * 16 + this_ch div 4) mod 256)])
             else
               a2b_base64 rest 0 0 0 (out @ [of_nat ((leftchar * 64 + this_ch) mod 256)])))"

definition urlsafe_b64decode :: "bytes \<Rightarrow> exn + bytes" where
  "urlsafe_b64decode s = a2b_base64 s 0 0 0 []"

lemma unat_b64_char: "n < 64 \<Longrightarrow> unat (b64_char n) =
   (if n < 26 then 65 + n else if n < 52 then 71 + n else if n < 62 then n - 4
             else if n = 62 then 45 else 95)"
  by (simp add: b64_char_def unat_of_nat)

lemma b64_digit_char: "n < 64 \<Longrightarrow> b64_digit (unat (b64_char n)) = Some n"
  by (auto simp: unat_b64_char b64_digit_def)

lemma b64_char_not_pad: "n < 64 \<Longrightarrow> b64_char n \<noteq> b64_pad"
proof
  assume "n < 64" "b64_char n = b64_pad"
  then have "unat (b64_char n) = 61" by (simp add: b64_pad_def)
  with \<open>n < 64\<close> show False by (auto simp: unat_b64_char split: if_splits)
qed

lemma a2b_step:
  "n < 64 \<Longrightarrow> a2b_base64 (b64_char n # rest) q l p out =
     (if q = 0 then a2b_base64 rest 1 n 0 out
      else if q = 1 then a2b_base64 rest 2 (n mod 16) 0 (out @ [of_nat ((l * 4 + n div 16) mod 256)])
      else if q = 2 then a2b_base64 rest 3 (n mod 4) 0 (out @ [of_nat ((l * 16 + n div 4) mod 256)])
      else a2b_base64 rest 0 0 0 (out @ [of_nat ((l * 64 + n) mod 256)]))"
  by (simp add: b64_digit_char b64_char_not_pad)

lemma byte_lt: "unat (a :: 8 word) < 256"
  using unsigned_less [of a] by simp


lemma sextets:
  fixes a b c :: "8 word"
  shows "unat a div 4 < 64" "unat a mod 4 * 16 + unat b div 16 < 64"
        "unat b mod 16 * 4 + unat c div 64 < 64" "unat c mod 64 < 64"
        "unat a mod 4 * 16 < 64" "unat b mod 16 * 4 < 64"
  using byte_lt [of a] byte_lt [of b] byte_lt [of c] by simp_all

lemma regroup:
  fixes a b c :: "8 word"
  shows "(unat a div 4 * 4 + (unat a mod 4 * 16 + unat b div 16) div 16) mod 256 = unat a"
        "((unat a mod 4 * 16 + unat b div 16) mod 16 * 16
            + (unat b mod 16 * 4 + unat c div 64) div 4) mod 256 = unat b"
        "((unat b mod 16 * 4 + unat c div 64) mod 4 * 64 + unat c mod 64) mod 256 = unat c"
        "(unat a div 4 * 4 + (unat a mod 4 * 16) div 16) mod 256 = unat a"
        "((unat a mod 4 * 16 + unat b div 16) mod 16 * 16 + (unat b mod 16 * 4) div 4) mod 256
           = unat b"
  using byte_lt [of a] byte_lt [of b] byte_lt [of c] by simp_all

lemma of_nat_unat_byte: "(of_nat (unat (a :: 8 word)) :: 8 word) = a"
  by simp

lemma a2b_group4:
  assumes "s1 < 64" "s2 < 64" "s3 < 64" "s4 < 64"
  shows "a2b_base64 (b64_char s1 # b64_char s2 # b64_char s3 # b64_char s4 # rest) 0 l p out =
         a2b_base64 rest 0 0 0
           (out @ [of_nat ((s1 * 4 + s2 div 16) mod 256),
                   of_nat ((s2 mod 16 * 16 + s3 div 4) mod 256),
                   of_nat ((s3 mod 4 * 64 + s4) mod 256)])"
  using assms by (simp add: a2b_step del: a2b_base64.simps)

lemma a2b_group3:
  assumes "s1 < 64" "s2 < 64" "s3 < 64"
  shows "a2b_base64 [b64_char s1, b64_char s2, b64_char s3, b64_pad] 0 l p out =
         Inr (out @ [of_nat ((s1 * 4 + s2 div 16) mod 256),
                     of_nat ((s2 mod 16 * 16 + s3 div 4) mod 256)])"
  using assms by (simp add: a2b_step del: a2b_base64.simps) simp

lemma a2b_group2:
  assumes "s1 < 64" "s2 < 64"
  shows "a2b_base64 [b64_char s1, b64_char s2, b64_pad, b64_pad] 0 l p out =
         Inr (out @ [of_nat ((s1 * 4 + s2 div 16) mod 256)])"
  using assms by (simp add: a2b_step del: a2b_base64.simps) simp

lemma a2b_encode: "a2b_base64 (urlsafe_b64encode bs) 0 l p out = Inr (out @ bs)"
proof (induction bs arbitrary: l p out rule: urlsafe_b64encode.induct)
  case 1
  show ?case by simp
next
  case (2 a)
  show ?case
    unfolding urlsafe_b64encode.simps
    by (simp only: a2b_group2 [OF sextets(1) sextets(5)] regroup(4) of_nat_unat_byte)
next
  case (3 a b)
  show ?case
    unfolding urlsafe_b64encode.simps
    by (simp only: a2b_group3 [OF sextets(1) sextets(2) sextets(6)] regroup(1) regroup(5)
          of_nat_unat_byte)
next
  case (4 a b c rest)
  show ?case
    unfolding urlsafe_b64encode.simps append_Cons append_Nil
    by (simp only: a2b_group4 [OF sextets(1) sextets(2) sextets(3) sextets(4)] regroup(1)
          regroup(2) regroup(3) of_nat_unat_byte "4.IH") simp
qed

theorem urlsafe_b64_roundtrip: "urlsafe_b64decode (urlsafe_b64encode bs) = Inr bs"
  by (simp add: urlsafe_b64decode_def a2b_encode)


lemma b64_char_ascii: "n < 64 \<Longrightarrow> unat (b64_char n) < 128"
  by (auto simp: unat_b64_char)

lemma urlsafe_b64encode_ascii: "ascii_bytes (urlsafe_b64encode bs)"
  by (induction bs rule: urlsafe_b64encode.induct)
     (simp_all add: ascii_bytes_def b64_char_ascii sextets b64_pad_def)

section \<open>Printing\<close>

text \<open>
  \<^verbatim>\<open>print(line)\<close> encodes the line for the standard output, which is taken to be UTF-8.
  A line that holds a surrogate cannot be encoded: \<^verbatim>\<open>print\<close> raises
  \<^verbatim>\<open>UnicodeEncodeError\<close> and writes nothing of the line. \<open>print\<close> above is the effect of a
  line that can be written.
\<close>

definition print_line :: "pystr \<Rightarrow> state \<Rightarrow> (exn + unit) \<times> state" where
  "print_line line s =
     (if well_formed line then (Inr (), print line s)
      else (Inl (Exn ''UnicodeEncodeError'' (encode_error_text line)), s))"

text \<open>
  Statements in sequence (an exception ends the sequence) and a \<^verbatim>\<open>try\<close> block with one
  \<^verbatim>\<open>except Exception\<close> handler, which sees the state the block left.
\<close>

definition then_do ::
  "(exn + 'a) \<times> state \<Rightarrow> ('a \<Rightarrow> state \<Rightarrow> (exn + 'b) \<times> state) \<Rightarrow> (exn + 'b) \<times> state" where
  "then_do m f = (case m of (Inl e, s) \<Rightarrow> (Inl e, s) | (Inr x, s) \<Rightarrow> f x s)"

definition except_exception ::
  "(exn + 'a) \<times> state \<Rightarrow> (exn \<Rightarrow> state \<Rightarrow> (exn + 'a) \<times> state) \<Rightarrow> (exn + 'a) \<times> state" where
  "except_exception m h = (case m of (Inl e, s) \<Rightarrow> h e s | (Inr x, s) \<Rightarrow> (Inr x, s))"

text \<open>\<^verbatim>\<open>print(line)\<close> followed by \<^verbatim>\<open>return v\<close>.\<close>

definition print_return :: "pystr \<Rightarrow> 'a \<Rightarrow> state \<Rightarrow> (exn + 'a) \<times> state" where
  "print_return line v s = then_do (print_line line s) (\<lambda>_ s1. (Inr v, s1))"

lemma then_do_simps [simp]:
  "then_do (Inl e, s) f = (Inl e, s)"
  "then_do (Inr x, s) f = f x s"
  by (simp_all add: then_do_def)

lemma except_exception_simps [simp]:
  "except_exception (Inl e, s) h = h e s"
  "except_exception (Inr x, s) h = (Inr x, s)"
  by (simp_all add: except_exception_def)

lemma print_line_well_formed: "well_formed line \<Longrightarrow> print_line line s = (Inr (), print line s)"
  by (simp add: print_line_def)

lemma print_line_ill_formed:
  "\<not> well_formed line \<Longrightarrow>
     print_line line s = (Inl (Exn ''UnicodeEncodeError'' (encode_error_text line)), s)"
  by (simp add: print_line_def)

lemma print_return_well_formed:
  "well_formed line \<Longrightarrow> print_return line v s = (Inr v, print line s)"
  by (simp add: print_return_def print_line_def)

lemma print_return_ill_formed:
  "\<not> well_formed line \<Longrightarrow>
     print_return line v s = (Inl (Exn ''UnicodeEncodeError'' (encode_error_text line)), s)"
  by (simp add: print_return_def print_line_def)

lemma well_formed_str_nat [simp]: "well_formed (str_nat n)"
  by (rule ascii_well_formed [OF ascii_str_nat])

lemma well_formed_Cons [simp]:
  "well_formed (c # cs) \<longleftrightarrow> c < 0x110000 \<and> \<not> is_surrogate c \<and> well_formed cs"
  by (simp add: well_formed_def)

lemma well_formed_Nil [simp]: "well_formed []"
  by (simp add: well_formed_def)

lemma well_formed_str_int [simp]: "well_formed (str_int i)"
  by (simp add: str_int_def is_surrogate_def)

lemma well_formed_marks [simp]:
  "well_formed newline" "well_formed bslash" "well_formed mag" "well_formed ok_mark"
  "well_formed cross" "well_formed warn_mark" "well_formed clipboard" "well_formed bulb"
  "well_formed lock_mark" "well_formed party" "well_formed apos"
  by (simp_all add: well_formed_def is_surrogate_def newline_def bslash_def mag_def ok_mark_def
      cross_def warn_mark_def clipboard_def bulb_def lock_mark_def party_def apos_def)

text \<open>A platform with no surprises and an empty state, for the concrete runs below.\<close>

definition env0 :: env where
  "env0 = \<lparr>connect_ex = (\<lambda>h p. Inr 0),
            subprocess_run = (\<lambda>c t f. (Inr (Completed 0 [] []), f)),
            makedirs = (\<lambda>p f. Inr f),
            mkstemp = (\<lambda>suf f. Inr (S ''/tmp/tmpab12'' @ suf)),
            write_error = (\<lambda>p t. None),
            getuid = 1000, getgid = 1000, now = 0, urandom16 = replicate 16 0\<rparr>"

definition st0 :: "pystr \<Rightarrow> state" where
  "st0 os = \<lparr>os_type = os, results = Map.empty, fs = Map.empty, answers = [], trace = []\<rparr>"

section \<open>The reachability check\<close>

text \<open>
  \<^verbatim>\<open>test_network_connectivity(self, host, port=445)\<close>. The first \<^verbatim>\<open>print\<close> stands before
  the \<^verbatim>\<open>try\<close> block: what it raises goes to the caller. The block holds the four socket
  calls, the test of the result and the two reports; \<^verbatim>\<open>socket.gaierror\<close> has a handler of
  its own, every other exception goes to the \<^verbatim>\<open>except Exception\<close> handler. Each handler
  prints the text of the exception, and what that \<^verbatim>\<open>print\<close> raises goes to the caller too.
\<close>

definition connectivity_line :: "pystr \<Rightarrow> int \<Rightarrow> pystr" where
  "connectivity_line host port =
     newline @ mag @ S '' Testing network connectivity to '' @ host @ S '':'' @ str_int port
     @ S ''...''"

definition connectivity_handler_line :: "exn \<Rightarrow> pystr" where
  "connectivity_handler_line e =
     (if exn_class e = ''gaierror'' then cross @ S '' DNS resolution failed: '' @ exn_str e
      else cross @ S '' Connection test failed: '' @ exn_str e)"


lemma well_formed_connectivity_line [simp]:
  "well_formed (connectivity_line host port) \<longleftrightarrow> well_formed host"
  by (simp add: connectivity_line_def)

lemma well_formed_connectivity_handler_line [simp]:
  "well_formed (connectivity_handler_line e) \<longleftrightarrow> well_formed (exn_str e)"
  by (simp add: connectivity_handler_line_def)





section \<open>Platform checks\<close>











section \<open>The share-listing check\<close>

text \<open>
  The three platform functions have the same shape: a \<^verbatim>\<open>try\<close> block that runs the listing
  command and reports, and an \<^verbatim>\<open>except Exception\<close> handler that prints the text of the
  exception and returns \<^verbatim>\<open>False\<close>. A \<^verbatim>\<open>print\<close> inside the block that cannot be written
  ends in the handler like any other exception. The parameter \<^verbatim>\<open>share\<close> is not used by
  any of them and is left out.
\<close>








text \<open>\<^verbatim>\<open>test_smb_connection\<close>: its first \<^verbatim>\<open>print\<close> stands outside every \<^verbatim>\<open>try\<close> block.\<close>

definition listing_line :: "pystr \<Rightarrow> pystr" where
  "listing_line server = newline @ mag @ S '' Testing SMB connection to '' @ server @ S ''...''"


section \<open>Mounting\<close>

definition path_exists :: "filesys \<Rightarrow> pystr \<Rightarrow> bool" where
  "path_exists f p = (f p \<noteq> None)"

text \<open>The external commands run so far.\<close>

fun commands_of :: "event list \<Rightarrow> pystr list list" where
  "commands_of [] = []"
| "commands_of (Run cmd # es) = cmd # commands_of es"
| "commands_of (e # es) = commands_of es"

definition commands :: "state \<Rightarrow> pystr list list" where
  "commands s = commands_of (trace s)"

text \<open>
  \<^verbatim>\<open>mount_windows_smb\<close>. \<^verbatim>\<open>range(ord('A'), ord('Z')+1)\<close> is \<open>[65..<91]\<close>, and
  \<^verbatim>\<open>range(ord('Z'), ord('A')-1, -1)\<close> is its reverse; a drive is \<^verbatim>\<open>chr(i)\<close> and a colon
  (code point 58).
\<close>

definition mount_windows_smb ::
  "env \<Rightarrow> pystr \<Rightarrow> pystr \<Rightarrow> pystr \<Rightarrow> pystr \<Rightarrow> state \<Rightarrow> bool \<times> state" where
  "mount_windows_smb E server share username password s =
     (let used_drives = [[i, 58]. i \<leftarrow> [65..<91], path_exists (fs s) ([i, 58] @ bslash)];
          available_drives = [[i, 58]. i \<leftarrow> rev [65..<91], [i, 58] \<notin> set used_drives]
      in if available_drives = []
         then (False, print (cross @ S '' No available drive letters'') s)
         else
           (let drive_letter = hd available_drives;
                unc_path = bslash @ bslash @ server @ bslash @ share;
                cmd = [S ''net'', S ''use'', drive_letter, unc_path]
                      @ (if username \<noteq> [] then [S ''/user:'' @ username, password] else []);
                (r, s1) = run E cmd (Some 15) s
            in case r of
                 Inr result \<Rightarrow>
                   if returncode result = 0
                   then (True,
                         print (S ''   Access via: '' @ drive_letter @ bslash)
                           (print (ok_mark @ S '' Successfully mapped '' @ unc_path @ S '' to ''
                                     @ drive_letter) s1))
                   else (False,
                         print (cross @ S '' Failed to map drive: '' @ strip (stderr result)) s1)
               | Inl e \<Rightarrow>
                   (False, print (cross @ S '' Error mounting SMB share: '' @ exn_str e) s1)))"

text \<open>The handler both Unix mounts end in, and the report of the mount command.\<close>

definition mount_raised :: "exn \<Rightarrow> state \<Rightarrow> bool \<times> state" where
  "mount_raised e s = (False, print (cross @ S '' Error mounting SMB share: '' @ exn_str e) s)"

definition mount_report :: "pystr \<Rightarrow> pystr \<Rightarrow> pystr \<Rightarrow> completed \<Rightarrow> state \<Rightarrow> bool \<times> state" where
  "mount_report server share mount_point result s =
     (if returncode result = 0
      then (True, print (ok_mark @ S '' Successfully mounted '' @ server @ S ''/'' @ share
                          @ S '' to '' @ mount_point) s)
      else (False, print (cross @ S '' Failed to mount share: '' @ strip (stderr result)) s))"


text \<open>
  \<^verbatim>\<open>mount_linux_smb\<close>. \<^verbatim>\<open>NamedTemporaryFile(mode='w', delete=False, suffix='.cred')\<close>
  creates an empty file under a fresh name; \<^verbatim>\<open>f.write\<close> and the close at the end of the
  \<^verbatim>\<open>with\<close> block fill it, or raise. Only then does the inner \<^verbatim>\<open>try\<close> start, whose
  \<^verbatim>\<open>finally\<close> unlinks the file (an error of \<^verbatim>\<open>os.unlink\<close> is swallowed). Every exception
  ends in the outer handler.
\<close>

definition unlink :: "pystr \<Rightarrow> state \<Rightarrow> state" where
  "unlink path s = s\<lparr>fs := (fs s)(path := None)\<rparr>"

definition mount_linux_smb ::
  "env \<Rightarrow> pystr \<Rightarrow> pystr \<Rightarrow> pystr \<Rightarrow> pystr \<Rightarrow> pystr option \<Rightarrow> state \<Rightarrow> bool \<times> state" where
  "mount_linux_smb E server share username password mount_point s =
     (let mp = (case mount_point of None \<Rightarrow> S ''/mnt/'' @ share
                | Some m \<Rightarrow> if m = [] then S ''/mnt/'' @ share else m)
      in case makedirs E mp (fs s) of
           Inl e \<Rightarrow> mount_raised e s
         | Inr fs1 \<Rightarrow>
             (let s1 = s\<lparr>fs := fs1\<rparr>;
                  cred_content = S ''username='' @ username @ newline @ S ''password='' @ password
                                 @ newline
              in case mkstemp E (S ''.cred'') (fs s1) of
                   Inl e \<Rightarrow> mount_raised e s1
                 | Inr cred_file \<Rightarrow>
                     (let s2 = s1\<lparr>fs := (fs s1)(cred_file \<mapsto> File [])\<rparr>
                      in case write_error E cred_file cred_content of
                           Some e \<Rightarrow> mount_raised e s2
                         | None \<Rightarrow>
                             (let s3 = s2\<lparr>fs := (fs s2)(cred_file \<mapsto> File cred_content)\<rparr>;
                                  cmd = [S ''sudo'', S ''mount'', S ''-t'', S ''cifs'',
                                         S ''//'' @ server @ S ''/'' @ share, mp, S ''-o'',
                                         S ''credentials='' @ cred_file @ S '',uid=''
                                           @ str_nat (getuid E) @ S '',gid='' @ str_nat (getgid E)];
                                  (r, s4) = run E cmd (Some 15) s3
                              in case r of
                                   Inr result \<Rightarrow>
                                     (let (b, s5) = mount_report server share mp result s4
                                      in (b, unlink cred_file s5))
                                 | Inl e \<Rightarrow> mount_raised e (unlink cred_file s4)))))"

text \<open>
  \<^verbatim>\<open>mount_smb_share\<close>: one \<^verbatim>\<open>print\<close>, outside every \<^verbatim>\<open>try\<close> block, and the dispatch on
  \<^verbatim>\<open>self.os_type\<close>. Each of the three platform functions encloses all it does in a
  \<^verbatim>\<open>try\<close> block and returns a boolean.
\<close>

definition mount_line :: "pystr \<Rightarrow> pystr \<Rightarrow> pystr" where
  "mount_line server share =
     newline @ mag @ S '' Attempting to mount '' @ bslash @ bslash @ server @ bslash @ share
     @ S ''...''"



section \<open>Facts about the trace\<close>

lemma commands_of_append: "commands_of (xs @ ys) = commands_of xs @ commands_of ys"
  by (induction xs rule: commands_of.induct) simp_all

lemma commands_print: "commands (print l s) = commands s"
  by (simp add: commands_def print_def emit_def commands_of_append)

lemma commands_run: "commands (snd (run E cmd tmo s)) = commands s @ [cmd]"
  by (simp add: run_def commands_def emit_def commands_of_append split: prod.splits)

lemma fs_print: "fs (print l s) = fs s"
  by (simp add: print_def emit_def)


section \<open>Unsupported platforms\<close>

lemma well_formed_mount_line [simp]:
  "well_formed (mount_line server share) \<longleftrightarrow> well_formed server \<and> well_formed share"
  by (simp add: mount_line_def)

lemma well_formed_listing_line [simp]:
  "well_formed (listing_line server) \<longleftrightarrow> well_formed server"
  by (simp add: listing_line_def)




section \<open>The Windows drive letter\<close>

text \<open>A list comprehension with one generator and one guard is a filter and a map.\<close>

lemma comprehension_filter:
  "concat (map (\<lambda>i. if P i then [f i] else []) xs) = map f (filter P xs)"
  by (induction xs) simp_all

lemma upt_split_at:
  assumes "a \<le> i" "i < b"
  shows "[a..<b] = [a..<i] @ i # [Suc i..<b]"
proof -
  have "[a..<b] = [a..<i] @ [i..<b]"
    using upt_add_eq_append [of a i "b - i"] assms by simp
  also have "[i..<b] = i # [Suc i..<b]"
    using assms(2) by (simp add: upt_conv_Cons)
  finally show ?thesis .
qed

lemma filter_rev_upt_first:
  assumes "a \<le> i" "i < b" "P i" "\<forall>j. i < j \<and> j < b \<longrightarrow> \<not> P j"
  shows "filter P (rev [a..<b]) = i # filter P (rev [a..<i])"
proof -
  have none: "filter P (rev [Suc i..<b]) = []"
    using assms(4) by (auto simp: filter_empty_conv)
  show ?thesis
    unfolding upt_split_at [OF assms(1,2)] using none assms(3) by simp
qed

lemma used_drive_iff:
  "[i, 58] \<in> set (map (\<lambda>k. [k, 58]) (filter Q [65..<91])) \<longleftrightarrow> 65 \<le> i \<and> i < 91 \<and> Q i"
proof -
  have "[i, 58] \<in> (\<lambda>k. [k, 58::nat]) ` {k. k \<in> set [65..<91] \<and> Q k} \<longleftrightarrow> i \<in> {k. k \<in> set [65..<91] \<and> Q k}"
    by blast
  then show ?thesis by (simp del: upt_rec_numeral)
qed


lemma available_drives_conv:
  "[[i, 58]. i \<leftarrow> rev [65..<91],
      [i, 58] \<notin> set [[k, 58]. k \<leftarrow> [65..<91], path_exists f ([k, 58] @ bslash)]]
   = map (\<lambda>i. [i, 58]) (filter (\<lambda>i. \<not> path_exists f ([i, 58] @ bslash)) (rev [65..<91]))"
proof -
  have "filter (\<lambda>i. [i, 58] \<notin> set (map (\<lambda>k. [k, 58])
                    (filter (\<lambda>k. path_exists f ([k, 58] @ bslash)) [65..<91]))) (rev [65..<91])
        = filter (\<lambda>i. \<not> path_exists f ([i, 58] @ bslash)) (rev [65..<91])"
    by (rule filter_cong [OF refl]) (simp only: used_drive_iff, simp del: upt_rec_numeral)
  then show ?thesis
    by (simp only: comprehension_filter)
qed

lemma commands_after_run:
  "commands (snd (case run E cmd tmo s of
                    (Inl e, s1) \<Rightarrow> (False, print (a e) s1)
                  | (Inr result, s1) \<Rightarrow>
                      if c result then (True, print x (print y s1))
                      else (False, print (z result) s1)))
   = commands s @ [cmd]"
proof (cases "run E cmd tmo s")
  case (Pair r s1)
  have "commands s1 = commands s @ [cmd]"
    using commands_run [of E cmd tmo s] Pair by simp
  then show ?thesis
    using Pair by (cases r) (simp_all add: commands_print)
qed

text \<open>
  C8. \<^verbatim>\<open>mount_windows_smb\<close> picks the first drive letter, scanning from Z (90) down to A
  (65), whose root \<^verbatim>\<open>X:\\<close> does not exist, and runs \<^verbatim>\<open>net use\<close> with that letter and
  the UNC path \<^verbatim>\<open>\\server\share\<close> (and the user arguments when a username is given);
  that is the one command it adds. When the roots of all of A to Z exist it returns
  \<^verbatim>\<open>False\<close> after printing one line, and runs no command.
\<close>

theorem windows_drive_letter_selection:
  "((\<forall>i. 65 \<le> i \<and> i < 91 \<longrightarrow> path_exists (fs s) ([i, 58] @ bslash)) \<longrightarrow>
      mount_windows_smb E server share username password s =
        (False, print (cross @ S '' No available drive letters'') s))
   \<and> (65 \<le> d \<and> d < 91 \<and> \<not> path_exists (fs s) ([d, 58] @ bslash)
       \<and> (\<forall>j. d < j \<and> j < 91 \<longrightarrow> path_exists (fs s) ([j, 58] @ bslash)) \<longrightarrow>
      commands (snd (mount_windows_smb E server share username password s)) =
        commands s @ [[S ''net'', S ''use'', [d, 58], bslash @ bslash @ server @ bslash @ share]
                      @ (if username \<noteq> [] then [S ''/user:'' @ username, password] else [])])"
proof (intro conjI impI)
  assume full: "\<forall>i. 65 \<le> i \<and> i < 91 \<longrightarrow> path_exists (fs s) ([i, 58] @ bslash)"
  have "filter (\<lambda>i. \<not> path_exists (fs s) ([i, 58] @ bslash)) (rev [65..<91]) = []"
    using full by (auto simp: filter_empty_conv simp del: upt_rec_numeral)
  then show "mount_windows_smb E server share username password s =
        (False, print (cross @ S '' No available drive letters'') s)"
    unfolding mount_windows_smb_def Let_def available_drives_conv by (simp del: upt_rec_numeral)
next
  assume free: "65 \<le> d \<and> d < 91 \<and> \<not> path_exists (fs s) ([d, 58] @ bslash)
       \<and> (\<forall>j. d < j \<and> j < 91 \<longrightarrow> path_exists (fs s) ([j, 58] @ bslash))"
  have first: "filter (\<lambda>i. \<not> path_exists (fs s) ([i, 58] @ bslash)) (rev [65..<91])
        = d # filter (\<lambda>i. \<not> path_exists (fs s) ([i, 58] @ bslash)) (rev [65..<d])"
    by (rule filter_rev_upt_first) (use free in auto)
  show "commands (snd (mount_windows_smb E server share username password s)) =
        commands s @ [[S ''net'', S ''use'', [d, 58], bslash @ bslash @ server @ bslash @ share]
                      @ (if username \<noteq> [] then [S ''/user:'' @ username, password] else [])]"
    unfolding mount_windows_smb_def Let_def available_drives_conv first
    by (simp add: commands_after_run)
qed


text \<open>A Windows state with a given file system.\<close>

definition st_drives :: "filesys \<Rightarrow> state" where
  "st_drives f = \<lparr>os_type = S ''windows'', results = Map.empty, fs = f, answers = [], trace = []\<rparr>"

theorem windows_drive_letter_witness:
  "commands (snd (mount_windows_smb env0 (S ''nas'') (S ''pub'') (S ''bob'') (S ''pw'')
                    (st_drives [S ''Z:'' @ bslash \<mapsto> Dir, S ''Y:'' @ bslash \<mapsto> Dir, S ''C:'' @ bslash \<mapsto> Dir])))
     = [[S ''net'', S ''use'', S ''X:'', bslash @ bslash @ S ''nas'' @ bslash @ S ''pub'',
         S ''/user:bob'', S ''pw'']]
   \<and> mount_windows_smb env0 (S ''nas'') (S ''pub'') (S ''bob'') (S ''pw'') (st_drives (\<lambda>p. Some Dir))
     = (False, print (cross @ S '' No available drive letters'') (st_drives (\<lambda>p. Some Dir)))"
proof -
  let ?f = "[S ''Z:'' @ bslash \<mapsto> Dir, S ''Y:'' @ bslash \<mapsto> Dir, S ''C:'' @ bslash \<mapsto> Dir]"
  have free: "65 \<le> (88::nat) \<and> (88::nat) < 91 \<and> \<not> path_exists (fs (st_drives ?f)) ([88, 58] @ bslash)
       \<and> (\<forall>j. 88 < j \<and> j < 91 \<longrightarrow> path_exists (fs (st_drives ?f)) ([j, 58] @ bslash))"
  proof (intro conjI allI impI)
    fix j :: nat
    assume "88 < j \<and> j < 91"
    then have "j = 89 \<or> j = 90" by arith
    then show "path_exists (fs (st_drives ?f)) ([j, 58] @ bslash)"
      by (auto simp: path_exists_def st_drives_def S_def bslash_def)
  qed (simp_all add: path_exists_def st_drives_def S_def bslash_def)
  have full: "\<forall>i. 65 \<le> i \<and> i < 91 \<longrightarrow> path_exists (fs (st_drives (\<lambda>p. Some Dir))) ([i, 58] @ bslash)"
    by (simp add: path_exists_def st_drives_def)
  from windows_drive_letter_selection
         [of "st_drives ?f" env0 "S ''nas''" "S ''pub''" "S ''bob''" "S ''pw''" 88] free
  have a: "commands (snd (mount_windows_smb env0 (S ''nas'') (S ''pub'') (S ''bob'') (S ''pw'')
                    (st_drives ?f)))
     = [[S ''net'', S ''use'', S ''X:'', bslash @ bslash @ S ''nas'' @ bslash @ S ''pub'',
         S ''/user:bob'', S ''pw'']]"
    by (simp add: commands_def st_drives_def S_def)
  from windows_drive_letter_selection
         [of "st_drives (\<lambda>p. Some Dir)" env0 "S ''nas''" "S ''pub''" "S ''bob''" "S ''pw''" 88] full
  have b: "mount_windows_smb env0 (S ''nas'') (S ''pub'') (S ''bob'') (S ''pw'') (st_drives (\<lambda>p. Some Dir))
     = (False, print (cross @ S '' No available drive letters'') (st_drives (\<lambda>p. Some Dir)))"
    by blast
  from a b show ?thesis by blast
qed

section \<open>The credentials file of the Linux mount\<close>

lemma fs_unlink: "fs (unlink p s) p = None"
  by (simp add: unlink_def)

lemma fs_mount_report: "fs (snd (mount_report server share mp result s)) = fs s"
  by (simp add: mount_report_def fs_print)

lemma fs_mount_raised: "fs (snd (mount_raised e s)) = fs s"
  by (simp add: mount_raised_def fs_print)

lemma fs_unlink_print: "fs (print l (unlink p s)) = (fs s)(p := None)"
  by (simp add: unlink_def print_def emit_def)

text \<open>Once the credentials file is written, it is gone when the function returns.\<close>

lemma mount_linux_smb_unlinks:
  assumes "makedirs E (case mount_point of None \<Rightarrow> S ''/mnt/'' @ share
                | Some m \<Rightarrow> if m = [] then S ''/mnt/'' @ share else m) (fs s) = Inr fs1"
    and "mkstemp E (S ''.cred'') fs1 = Inr cred_file"
    and "write_error E cred_file (S ''username='' @ username @ newline @ S ''password='' @ password
                                 @ newline) = None"
  shows "fs (snd (mount_linux_smb E server share username password mount_point s)) cred_file = None"
  using assms
  by (auto simp: mount_linux_smb_def Let_def fs_unlink fs_mount_raised mount_raised_def fs_print
      unlink_def mount_report_def
      split: prod.splits sum.splits option.splits)

text \<open>A platform whose temporary directory cannot be written: \<^verbatim>\<open>f.write\<close> (or the close that
  ends the \<^verbatim>\<open>with\<close> block) raises.\<close>

definition env_unwritable :: env where
  "env_unwritable = env0\<lparr>write_error := (\<lambda>p t. Some (Exn ''OSError'' (S ''[Errno 28] No space left on device'')))\<rparr>"

text \<open>
  C6. The claim is that the credentials file never outlives \<^verbatim>\<open>mount_linux_smb\<close>. The
  \<^verbatim>\<open>finally\<close> block covers the mount command only (\<open>mount_linux_smb_unlinks\<close> above);
  the write sits before the inner \<^verbatim>\<open>try\<close>, and \<^verbatim>\<open>delete=False\<close> keeps the file when the
  \<^verbatim>\<open>with\<close> block is left by an exception. On the platform above the function returns
  \<^verbatim>\<open>False\<close>, has run no command, and the file it created is still there.
\<close>

theorem mount_linux_smb_leaves_credentials_file:
  "fst (mount_linux_smb env_unwritable (S ''nas'') (S ''pub'') (S ''bob'') (S ''pw'') None (st0 (S ''linux''))) = False
   \<and> fs (snd (mount_linux_smb env_unwritable (S ''nas'') (S ''pub'') (S ''bob'') (S ''pw'') None (st0 (S ''linux''))))
        (S ''/tmp/tmpab12.cred'') = Some (File [])
   \<and> commands (snd (mount_linux_smb env_unwritable (S ''nas'') (S ''pub'') (S ''bob'') (S ''pw'') None (st0 (S ''linux'')))) = []"
  by (simp add: mount_linux_smb_def env_unwritable_def env0_def st0_def Let_def mount_raised_def
      print_def emit_def commands_def S_def)

end
